theory Spec2Isabelle
  imports Main "HOL-Library.Word" "HOL-Library.RBT"
begin

section \<open>The flag reporter of \<^verbatim>\<open>CCDB/read_encoded_flags.C\<close>\<close>

text \<open>
  The repository is one ROOT macro, \<^verbatim>\<open>read_encoded_flags\<close>. It loads a dictionary
  library, asks the CCDB manager for the duration of a run, builds a metadata map, fetches
  a \<^verbatim>\<open>std::map<uint64_t, uint32_t>\<close> at the middle of the run and prints it.

  The macro talks to three things it does not own: \<^verbatim>\<open>gSystem->Load\<close>, the CCDB manager
  and the two standard streams. The model makes them explicit: the collaborators are the
  fields of an environment record, each returning what the real call returns (an
  exception is the left summand), and the macro returns a record of everything it wrote
  and every call it made on the manager, in order.
\<close>

subsection \<open>Machine integers\<close>

text \<open>
  \<^verbatim>\<open>int\<close> is a 32-bit two's complement value, read with \<^const>\<open>sint\<close>; the two unsigned
  types are read with \<^const>\<open>unat\<close>.
\<close>

type_synonym c_int = "32 word"
type_synonym uint32_t = "32 word"
type_synonym uint64_t = "64 word"

subsection \<open>Decimal and binary text\<close>

text \<open>
  What \<^verbatim>\<open>std::to_string\<close> and \<^verbatim>\<open>operator<<\<close> write for an integer (streams in
  their default state: base ten, no padding), and what \<^verbatim>\<open>operator<<\<close> writes for a
  \<^verbatim>\<open>std::bitset<32>\<close>: bit 31 first, bit 0 last.
\<close>

definition digit_char :: "nat \<Rightarrow> char" where
  "digit_char d = char_of (48 + d)"

fun dec_nat :: "nat \<Rightarrow> string" where
  "dec_nat n = (if n < 10 then [digit_char n] else dec_nat (n div 10) @ [digit_char (n mod 10)])"

declare dec_nat.simps [simp del]

definition dec_int :: "int \<Rightarrow> string" where
  "dec_int i = (if i < 0 then CHR ''-'' # dec_nat (nat (- i)) else dec_nat (nat i))"

definition to_string :: "c_int \<Rightarrow> string" where
  "to_string v = dec_int (sint v)"

definition bitset32 :: "uint32_t \<Rightarrow> string" where
  "bitset32 w = map (\<lambda>i. if bit w i then CHR ''1'' else CHR ''0'') (rev [0..<32])"

definition newline :: char where
  "newline = CHR 0x0A"

definition endl :: string where
  "endl = [newline]"

text \<open>
  Reading the text back: the value of a string of decimal digits, of a string of binary
  digits, and the lines of a stream (a line ends at each newline; text after the last
  newline is a line of its own).
\<close>

definition digit_val :: "char \<Rightarrow> nat" where
  "digit_val c = of_char c - 48"

definition is_digit :: "char \<Rightarrow> bool" where
  "is_digit c = (48 \<le> (of_char c :: nat) \<and> (of_char c :: nat) \<le> 57)"

definition nat_of_dec :: "string \<Rightarrow> nat" where
  "nat_of_dec s = foldl (\<lambda>a c. 10 * a + digit_val c) 0 s"

definition int_of_dec :: "string \<Rightarrow> int" where
  "int_of_dec s = (case s of
       [] \<Rightarrow> 0
     | c # cs \<Rightarrow> if c = CHR ''-'' then - int (nat_of_dec cs) else int (nat_of_dec s))"

definition nat_of_bin :: "string \<Rightarrow> nat" where
  "nat_of_bin s = foldl (\<lambda>a c. 2 * a + (if c = CHR ''1'' then 1 else 0)) 0 s"

fun split_lines :: "string \<Rightarrow> string \<Rightarrow> string list" where
  "split_lines cur [] = (if cur = [] then [] else [cur])"
| "split_lines cur (c # cs) =
     (if c = newline then cur # split_lines [] cs else split_lines (cur @ [c]) cs)"

definition lines_of :: "string \<Rightarrow> string list" where
  "lines_of s = split_lines [] s"

text \<open>
  The timestamp a printed flag line shows: the digits that follow the thirteen characters
  of \<^verbatim>\<open>"  Timestamp: "\<close>.
\<close>

definition line_timestamp :: "string \<Rightarrow> nat" where
  "line_timestamp l = nat_of_dec (takeWhile is_digit (drop 13 l))"

subsection \<open>Exceptions, collaborators, observable behaviour\<close>

text \<open>
  The handler of the macro is \<^verbatim>\<open>catch (const std::exception& ex)\<close>: it selects by type.
  A thrown object is therefore either a \<^verbatim>\<open>std::exception\<close> (with the text its
  \<^verbatim>\<open>what()\<close> returns) or an object of some other type.
\<close>

datatype exn = Std_exception (what: string) | Other_exception

type_synonym metadata_map = "string \<rightharpoonup> string"

type_synonym flags_map = "(uint64_t, uint32_t) rbt"

text \<open>
  Modelled from the spec: the element type of the pair that \<^verbatim>\<open>getRunDuration\<close>
  returns. It is declared in \<^verbatim>\<open>CCDB/BasicCCDBManager.h\<close>, which is not part of the
  sources; the spec gives the run's time window as two \<^verbatim>\<open>uint64\<close> timestamps.

  \<^verbatim>\<open>getSpecific\<close> returns a pointer: \<open>None\<close> is the null pointer. The retrieved
  \<^verbatim>\<open>std::map\<close> is a red-black tree on the keys' order, as \<^typ>\<open>flags_map\<close> is; a range-for
  over it visits \<^const>\<open>RBT.entries\<close>.
\<close>

record ccdb_env =
  Load :: "string \<Rightarrow> int"
  getRunDuration :: "c_int \<Rightarrow> exn + (uint64_t \<times> uint64_t)"
  getSpecific :: "string \<Rightarrow> uint64_t \<Rightarrow> metadata_map \<Rightarrow> exn + flags_map option"

datatype store_call =
    Instance
  | GetRunDuration c_int
  | GetSpecific string uint64_t metadata_map

datatype completion = Returned | Propagated exn

record run_result =
  cout :: string
  cerr :: string
  calls :: "store_call list"
  outcome :: completion

subsection \<open>The macro\<close>

text \<open>
  Line 21, \<^verbatim>\<open>uint64_t ts = (soreor.first + soreor.second) / 2\<close>: the sum and the
  quotient are taken in 64 bits.
\<close>

definition query_timestamp :: "uint64_t \<times> uint64_t \<Rightarrow> uint64_t" where
  "query_timestamp soreor = (fst soreor + snd soreor) div 2"

text \<open>Lines 24 to 28: four assignments into an empty \<^verbatim>\<open>std::map<std::string, std::string>\<close>.\<close>

definition build_metadata :: "c_int \<Rightarrow> string \<Rightarrow> string \<Rightarrow> c_int \<Rightarrow> metadata_map" where
  "build_metadata run passName periodName versionNumber =
     [''run'' \<mapsto> to_string run,
      ''passName'' \<mapsto> passName,
      ''periodName'' \<mapsto> periodName,
      ''version'' \<mapsto> to_string versionNumber]"

text \<open>Lines 43 and 44: what one iteration of the loop writes, without and with its newline.\<close>

definition flag_text :: "uint64_t \<times> uint32_t \<Rightarrow> string" where
  "flag_text e =
     ''  Timestamp: '' @ dec_nat (unat (fst e)) @
     '', Bitmask: '' @ bitset32 (snd e) @ '' ('' @ dec_nat (unat (snd e)) @ '')''"

definition flag_line :: "uint64_t \<times> uint32_t \<Rightarrow> string" where
  "flag_line e = flag_text e @ [newline]"

text \<open>The range-for loop: each entry appends its line to what is on standard output.\<close>

primrec print_entries :: "(uint64_t \<times> uint32_t) list \<Rightarrow> string \<Rightarrow> string" where
  "print_entries [] out = out"
| "print_entries (e # es) out = print_entries es (out @ flag_line e)"

definition default_ccdbPath :: string where
  "default_ccdbPath = ''Users/j/jian/RCT''"

definition read_encoded_flags ::
  "ccdb_env \<Rightarrow> c_int \<Rightarrow> string \<Rightarrow> string \<Rightarrow> c_int \<Rightarrow> string \<Rightarrow> run_result" where
  "read_encoded_flags env run passName periodName versionNumber ccdbPath =
     (if Load env ''dict_ccdb.so'' < 0 then
        \<lparr>cout = [], cerr = ''Error: Failed to load dict_ccdb.so'' @ endl,
         calls = [], outcome = Returned\<rparr>
      else
        (case getRunDuration env run of
           Inl ex \<Rightarrow>
             \<lparr>cout = [], cerr = [],
              calls = [Instance, GetRunDuration run], outcome = Propagated ex\<rparr>
         | Inr soreor \<Rightarrow>
             (let ts = query_timestamp soreor;
                  metadata = build_metadata run passName periodName versionNumber;
                  trace = [Instance, GetRunDuration run, GetSpecific ccdbPath ts metadata]
              in (case getSpecific env ccdbPath ts metadata of
                    Inl (Std_exception msg) \<Rightarrow>
                      \<lparr>cout = [],
                       cerr = ''Error: Exception occurred while retrieving CCDB object: ''
                              @ msg @ [newline],
                       calls = trace, outcome = Returned\<rparr>
                  | Inl Other_exception \<Rightarrow>
                      \<lparr>cout = [], cerr = [],
                       calls = trace, outcome = Propagated Other_exception\<rparr>
                  | Inr None \<Rightarrow>
                      \<lparr>cout = [],
                       cerr = ''Error: Unable to retrieve encoded flags for run ''
                              @ dec_int (sint run) @ '' from CCDB.'' @ [newline],
                       calls = trace, outcome = Returned\<rparr>
                  | Inr (Some encodedFlags) \<Rightarrow>
                      \<lparr>cout = print_entries (RBT.entries encodedFlags)
                                (''Encoded Flags for Run '' @ dec_int (sint run)
                                 @ '':'' @ [newline]),
                       cerr = [],
                       calls = trace, outcome = Returned\<rparr>))))"

text \<open>A call that leaves the last parameter to its default.\<close>

definition read_encoded_flags_default ::
  "ccdb_env \<Rightarrow> c_int \<Rightarrow> string \<Rightarrow> string \<Rightarrow> c_int \<Rightarrow> run_result" where
  "read_encoded_flags_default env run passName periodName versionNumber =
     read_encoded_flags env run passName periodName versionNumber default_ccdbPath"

subsection \<open>Reading the trace, and a substitute store\<close>


fun query_metadata :: "store_call list \<Rightarrow> metadata_map list" where
  "query_metadata [] = []"
| "query_metadata (GetSpecific p ts md # cs) = md # query_metadata cs"
| "query_metadata (c # cs) = query_metadata cs"

text \<open>
  A store that answers every call the same way: \<open>rc\<close> from \<^verbatim>\<open>Load\<close>, \<open>window\<close>
  from \<^verbatim>\<open>getRunDuration\<close>, \<open>reply\<close> from \<^verbatim>\<open>getSpecific\<close>. The examples below run the
  macro against it.
\<close>

definition fake_env ::
  "int \<Rightarrow> exn + (uint64_t \<times> uint64_t) \<Rightarrow> exn + flags_map option \<Rightarrow> ccdb_env" where
  "fake_env rc window reply =
     \<lparr>Load = (\<lambda>_. rc), getRunDuration = (\<lambda>_. window), getSpecific = (\<lambda>_ _ _. reply)\<rparr>"

definition demo_flags :: flags_map where
  "demo_flags = RBT.bulkload [(30, 5), (10, 4294967295), (20, 0)]"

text \<open>
  A store that looks at the filter it is given: it has the object under the filter of run
  42, pass \<^verbatim>\<open>apass4\<close>, period \<^verbatim>\<open>LHC23zzh\<close>, version 7, and nothing under any other.
\<close>

definition selective_env :: ccdb_env where
  "selective_env =
     \<lparr>Load = (\<lambda>_. 0), getRunDuration = (\<lambda>_. Inr (1000, 2001)),
      getSpecific = (\<lambda>path ts md.
        if md ''run'' = Some ''42'' \<and> md ''passName'' = Some ''apass4''
           \<and> md ''periodName'' = Some ''LHC23zzh'' \<and> md ''version'' = Some ''7''
        then Inr (Some demo_flags) else Inr None)\<rparr>"

section \<open>Properties of the text\<close>

subsection \<open>Decimal digits\<close>

lemma digit_val_digit_char: "d < 10 \<Longrightarrow> digit_val (digit_char d) = d"
  by (simp add: digit_val_def digit_char_def)

lemma is_digit_digit_char: "d < 10 \<Longrightarrow> is_digit (digit_char d)"
  by (simp add: is_digit_def digit_char_def)

lemma nat_of_dec_snoc: "nat_of_dec (s @ [c]) = 10 * nat_of_dec s + digit_val c"
  by (simp add: nat_of_dec_def)

lemma nat_of_dec_dec_nat: "nat_of_dec (dec_nat n) = n"
proof (induction n rule: dec_nat.induct)
  case (1 n)
  show ?case
  proof (cases "n < 10")
    case True
    then show ?thesis
      by (subst dec_nat.simps) (simp add: nat_of_dec_def digit_val_digit_char)
  next
    case False
    with 1 have "nat_of_dec (dec_nat (n div 10)) = n div 10" by simp
    with False show ?thesis
      by (subst dec_nat.simps) (simp add: nat_of_dec_snoc digit_val_digit_char)
  qed
qed

lemma dec_nat_digits: "c \<in> set (dec_nat n) \<Longrightarrow> is_digit c"
proof (induction n rule: dec_nat.induct)
  case (1 n)
  show ?case
  proof (cases "n < 10")
    case True
    with "1.prems" show ?thesis
      by (subst (asm) dec_nat.simps) (simp add: is_digit_digit_char)
  next
    case False
    with "1.prems" have "c \<in> set (dec_nat (n div 10)) \<or> c = digit_char (n mod 10)"
      by (subst (asm) dec_nat.simps) auto
    with False 1 show ?thesis
      by (auto simp: is_digit_digit_char)
  qed
qed

lemma dec_nat_not_Nil: "dec_nat n \<noteq> []"
  by (subst dec_nat.simps) simp

lemma is_digit_newline: "\<not> is_digit newline"
  by (simp add: is_digit_def newline_def)

lemma is_digit_minus: "\<not> is_digit CHR ''-''"
  by (simp add: is_digit_def)

lemma is_digit_comma: "\<not> is_digit CHR '',''"
  by (simp add: is_digit_def)

lemma newline_notin_dec_nat: "newline \<notin> set (dec_nat n)"
  using dec_nat_digits is_digit_newline by blast

lemma hd_dec_nat_not_minus: "dec_nat n = c # cs \<Longrightarrow> c \<noteq> CHR ''-''"
  using dec_nat_digits [of c n] is_digit_minus by auto

lemma int_of_dec_dec_int: "int_of_dec (dec_int i) = i"
proof (cases "i < 0")
  case True
  then show ?thesis
    by (simp add: int_of_dec_def dec_int_def nat_of_dec_dec_nat)
next
  case False
  obtain c cs where d: "dec_nat (nat i) = c # cs"
    using dec_nat_not_Nil [of "nat i"] by (cases "dec_nat (nat i)") auto
  have "c \<noteq> CHR ''-''" using hd_dec_nat_not_minus [OF d] .
  moreover have "nat_of_dec (c # cs) = nat i"
    using nat_of_dec_dec_nat [of "nat i"] d by simp
  ultimately show ?thesis using False d
    by (simp add: int_of_dec_def dec_int_def)
qed

lemma int_of_dec_to_string: "int_of_dec (to_string v) = sint v"
  by (simp add: to_string_def int_of_dec_dec_int)

lemma newline_not_minus: "newline \<noteq> CHR ''-''"
  by (simp add: newline_def)

lemma newline_notin_dec_int: "newline \<notin> set (dec_int i)"
  unfolding dec_int_def using newline_notin_dec_nat newline_not_minus by auto

subsection \<open>The 32 binary digits\<close>

lemma length_bitset32: "length (bitset32 w) = 32"
  by (simp add: bitset32_def)

lemma bitset32_chars: "set (bitset32 w) \<subseteq> {CHR ''0'', CHR ''1''}"
  by (auto simp: bitset32_def)

lemma newline_notin_bitset32: "newline \<notin> set (bitset32 w)"
  using bitset32_chars [of w] by (auto simp: newline_def)

lemma foldl_bits:
  "foldl (\<lambda>a c. 2 * a + (if c = CHR ''1'' then 1 else 0)) a
     (map (\<lambda>i. if bit w i then CHR ''1'' else CHR ''0'') (rev [0..<n]))
   = a * 2 ^ n + take_bit n (unat w)"
  (is "foldl ?f a (map ?g (rev [0..<n])) = _")
proof (induction n arbitrary: a)
  case 0
  show ?case by simp
next
  case (Suc n)
  have b: "bit (unat w) n = bit w n"
    by (simp add: bit_unsigned_iff)
  have "foldl ?f a (map ?g (rev [0..<Suc n]))
          = foldl ?f (2 * a + of_bool (bit w n)) (map ?g (rev [0..<n]))"
    by simp
  also have "\<dots> = (2 * a + of_bool (bit w n)) * 2 ^ n + take_bit n (unat w)"
    by (rule Suc.IH)
  also have "\<dots> = a * 2 ^ Suc n + take_bit (Suc n) (unat w)"
    by (simp add: take_bit_Suc_from_most b algebra_simps)
  finally show ?case .
qed

lemma nat_of_bin_bitset32: "nat_of_bin (bitset32 w) = unat w"
proof -
  have "unat w < 2 ^ 32"
    using unsigned_less [of w] by simp
  then have "take_bit 32 (unat w) = unat w"
    by (simp add: take_bit_nat_eq_self)
  then show ?thesis
    unfolding nat_of_bin_def bitset32_def foldl_bits by simp
qed

text \<open>The example of the specification: the bitmask 5.\<close>

lemma bitset32_5:
  "bitset32 5 = ''00000000000000000000000000000101'' \<and> dec_nat (unat (5 :: uint32_t)) = ''5''"
  by code_simp

subsection \<open>Lines\<close>

lemma split_lines_line:
  "newline \<notin> set a \<Longrightarrow> split_lines cur (a @ newline # rest) = (cur @ a) # split_lines [] rest"
  by (induction a arbitrary: cur) auto

lemma lines_of_single: "newline \<notin> set a \<Longrightarrow> lines_of (a @ [newline]) = [a]"
  using split_lines_line [of a "[]" "[]"] by (simp add: lines_of_def)

lemma print_entries_concat: "print_entries es out = out @ concat (map flag_line es)"
  by (induction es arbitrary: out) simp_all

lemma newline_notin_flag_text: "newline \<notin> set (flag_text e)"
  using newline_notin_dec_nat newline_notin_bitset32
  by (auto simp: flag_text_def newline_def)

lemma split_lines_flags: "split_lines [] (concat (map flag_line es)) = map flag_text es"
proof (induction es)
  case Nil
  show ?case by simp
next
  case (Cons e es)
  have "concat (map flag_line (e # es)) = flag_text e @ newline # concat (map flag_line es)"
    by (simp only: list.map concat.simps flag_line_def append_assoc append_Cons append_Nil)
  moreover have "split_lines [] (flag_text e @ newline # concat (map flag_line es))
          = ([] @ flag_text e) # split_lines [] (concat (map flag_line es))"
    by (rule split_lines_line [OF newline_notin_flag_text])
  ultimately show ?case using Cons.IH by simp
qed

lemma lines_of_print_entries:
  assumes "newline \<notin> set hdr"
  shows "lines_of (print_entries es (hdr @ [newline])) = hdr # map flag_text es"
proof -
  have "print_entries es (hdr @ [newline]) = hdr @ newline # concat (map flag_line es)"
    by (simp add: print_entries_concat)
  then show ?thesis
    using split_lines_line [OF assms, of "[]" "concat (map flag_line es)"]
    by (simp add: lines_of_def split_lines_flags)
qed

lemma takeWhile_digits: "takeWhile is_digit (dec_nat n @ CHR '','' # rest) = dec_nat n"
  using dec_nat_digits is_digit_comma by (simp add: takeWhile_tail)

lemma line_timestamp_flag_text: "line_timestamp (flag_text e) = unat (fst e)"
  by (simp add: line_timestamp_def flag_text_def takeWhile_digits nat_of_dec_dec_nat)

subsection \<open>Evaluating the text on numerals\<close>

lemma dec_nat_numeral:
  "dec_nat (numeral k) =
     (if numeral k < (10 :: nat) then [digit_char (numeral k)]
      else dec_nat (numeral k div 10) @ [digit_char (numeral k mod 10)])"
  by (rule dec_nat.simps)

lemma dec_nat_small: "dec_nat 0 = ''0''" "dec_nat 1 = ''1''" "dec_nat (Suc 0) = ''1''"
  by code_simp+

lemma digit_chars:
  "digit_char 0 = CHR ''0''" "digit_char 1 = CHR ''1''" "digit_char 2 = CHR ''2''"
  "digit_char 3 = CHR ''3''" "digit_char 4 = CHR ''4''" "digit_char 5 = CHR ''5''"
  "digit_char 6 = CHR ''6''" "digit_char 7 = CHR ''7''" "digit_char 8 = CHR ''8''"
  "digit_char 9 = CHR ''9''" "digit_char (Suc 0) = CHR ''1''"
  by code_simp+

lemmas dec_eval = dec_nat_numeral dec_nat_small digit_chars

section \<open>The paths of the macro\<close>

lemma run_load_failed:
  assumes "Load env ''dict_ccdb.so'' < 0"
  shows "read_encoded_flags env run passName periodName versionNumber ccdbPath =
    \<lparr>cout = [], cerr = ''Error: Failed to load dict_ccdb.so'' @ [newline],
     calls = [], outcome = Returned\<rparr>"
  using assms by (simp add: read_encoded_flags_def endl_def)

lemma run_duration_raised:
  assumes "\<not> Load env ''dict_ccdb.so'' < 0" and "getRunDuration env run = Inl ex"
  shows "read_encoded_flags env run passName periodName versionNumber ccdbPath =
    \<lparr>cout = [], cerr = [], calls = [Instance, GetRunDuration run], outcome = Propagated ex\<rparr>"
  using assms by (simp add: read_encoded_flags_def)

lemma run_calls:
  assumes "\<not> Load env ''dict_ccdb.so'' < 0" and "getRunDuration env run = Inr soreor"
  shows "calls (read_encoded_flags env run passName periodName versionNumber ccdbPath) =
    [Instance, GetRunDuration run,
     GetSpecific ccdbPath (query_timestamp soreor)
       (build_metadata run passName periodName versionNumber)]"
  using assms
  by (simp add: read_encoded_flags_def Let_def split: sum.split exn.split option.split)

lemma run_std_exception:
  assumes "\<not> Load env ''dict_ccdb.so'' < 0" and "getRunDuration env run = Inr soreor"
    and "getSpecific env ccdbPath (query_timestamp soreor)
           (build_metadata run passName periodName versionNumber) = Inl (Std_exception msg)"
  shows "cout (read_encoded_flags env run passName periodName versionNumber ccdbPath) = []"
    and "cerr (read_encoded_flags env run passName periodName versionNumber ccdbPath) =
           ''Error: Exception occurred while retrieving CCDB object: '' @ msg @ [newline]"
    and "outcome (read_encoded_flags env run passName periodName versionNumber ccdbPath) = Returned"
  using assms by (simp_all add: read_encoded_flags_def Let_def)

lemma run_other_exception:
  assumes "\<not> Load env ''dict_ccdb.so'' < 0" and "getRunDuration env run = Inr soreor"
    and "getSpecific env ccdbPath (query_timestamp soreor)
           (build_metadata run passName periodName versionNumber) = Inl Other_exception"
  shows "cout (read_encoded_flags env run passName periodName versionNumber ccdbPath) = []"
    and "cerr (read_encoded_flags env run passName periodName versionNumber ccdbPath) = []"
    and "outcome (read_encoded_flags env run passName periodName versionNumber ccdbPath)
           = Propagated Other_exception"
  using assms by (simp_all add: read_encoded_flags_def Let_def)

lemma run_null:
  assumes "\<not> Load env ''dict_ccdb.so'' < 0" and "getRunDuration env run = Inr soreor"
    and "getSpecific env ccdbPath (query_timestamp soreor)
           (build_metadata run passName periodName versionNumber) = Inr None"
  shows "cout (read_encoded_flags env run passName periodName versionNumber ccdbPath) = []"
    and "cerr (read_encoded_flags env run passName periodName versionNumber ccdbPath) =
           ''Error: Unable to retrieve encoded flags for run '' @ dec_int (sint run)
           @ '' from CCDB.'' @ [newline]"
    and "outcome (read_encoded_flags env run passName periodName versionNumber ccdbPath) = Returned"
  using assms by (simp_all add: read_encoded_flags_def Let_def)

lemma run_found:
  assumes "\<not> Load env ''dict_ccdb.so'' < 0" and "getRunDuration env run = Inr soreor"
    and "getSpecific env ccdbPath (query_timestamp soreor)
           (build_metadata run passName periodName versionNumber) = Inr (Some encodedFlags)"
  shows "cout (read_encoded_flags env run passName periodName versionNumber ccdbPath) =
           print_entries (RBT.entries encodedFlags)
             ((''Encoded Flags for Run '' @ dec_int (sint run) @ '':'') @ [newline])"
    and "cerr (read_encoded_flags env run passName periodName versionNumber ccdbPath) = []"
    and "outcome (read_encoded_flags env run passName periodName versionNumber ccdbPath) = Returned"
  using assms by (simp_all add: read_encoded_flags_def Let_def)

lemma newline_notin_header:
  "newline \<notin> set (''Encoded Flags for Run '' @ dec_int (sint run) @ '':'')"
  using newline_notin_dec_int [of "sint run"] by (simp add: newline_def)

lemma newline_notin_null_message:
  "newline \<notin> set (''Error: Unable to retrieve encoded flags for run '' @ dec_int (sint run)
      @ '' from CCDB.'')"
  using newline_notin_dec_int [of "sint run"] by (simp add: newline_def)

lemma newline_notin_load_message: "newline \<notin> set ''Error: Failed to load dict_ccdb.so''"
  by (simp add: newline_def)

lemma newline_notin_exception_prefix:
  "newline \<notin> set ''Error: Exception occurred while retrieving CCDB object: ''"
  by (simp add: newline_def)


lemma fake_env_simps:
  "Load (fake_env rc window reply) lib = rc"
  "getRunDuration (fake_env rc window reply) run = window"
  "getSpecific (fake_env rc window reply) path ts md = reply"
  by (simp_all add: fake_env_def)

lemma entries_demo_flags: "RBT.entries demo_flags = [(10, 4294967295), (20, 0), (30, 5)]"
  by code_simp



section \<open>The query timestamp\<close>




section \<open>The printed flags\<close>

lemma flag_text_format:
  "map flag_text es =
     map (\<lambda>(t, b). ''  Timestamp: '' @ dec_nat (unat t) @ '', Bitmask: '' @ bitset32 b
                      @ '' ('' @ dec_nat (unat b) @ '')'') es"
  by (simp add: flag_text_def case_prod_beta)

text \<open>
  C2. When the lookup returns an object, standard output holds the header line and then
  exactly one line for each entry of the returned map (an entry is a pair of the map, and
  no key occurs twice). The line of the entry \<open>(t, b)\<close> is \<^verbatim>\<open>"  Timestamp: "\<close>, the decimal
  digits of \<open>t\<close>, \<^verbatim>\<open>", Bitmask: "\<close>, the 32 binary digits of \<open>b\<close>, \<^verbatim>\<open>" ("\<close>, the decimal
  digits of \<open>b\<close> and \<^verbatim>\<open>")"\<close>. The decimal digits read back as the number; the binary text
  has 32 characters, each 0 or 1, and reads back as the unsigned value of \<open>b\<close>.
\<close>

theorem flag_lines_format:
  assumes "\<not> Load env ''dict_ccdb.so'' < 0"
    and "getRunDuration env run = Inr soreor"
    and "getSpecific env ccdbPath (query_timestamp soreor)
           (build_metadata run passName periodName versionNumber) = Inr (Some encodedFlags)"
  shows "lines_of (cout (read_encoded_flags env run passName periodName versionNumber ccdbPath))
           = (''Encoded Flags for Run '' @ dec_int (sint run) @ '':'')
             # map (\<lambda>(t, b). ''  Timestamp: '' @ dec_nat (unat t) @ '', Bitmask: '' @ bitset32 b
                               @ '' ('' @ dec_nat (unat b) @ '')'')
                   (RBT.entries encodedFlags)
       \<and> (\<forall>t b. ((t, b) \<in> set (RBT.entries encodedFlags)) = (RBT.lookup encodedFlags t = Some b))
       \<and> distinct (map fst (RBT.entries encodedFlags))
       \<and> (\<forall>n. nat_of_dec (dec_nat n) = n)
       \<and> (\<forall>b. length (bitset32 b) = 32 \<and> set (bitset32 b) \<subseteq> {CHR ''0'', CHR ''1''}
               \<and> nat_of_bin (bitset32 b) = unat b)"
proof -
  have "lines_of (cout (read_encoded_flags env run passName periodName versionNumber ccdbPath))
          = (''Encoded Flags for Run '' @ dec_int (sint run) @ '':'')
            # map flag_text (RBT.entries encodedFlags)"
    unfolding run_found(1) [OF assms]
    by (rule lines_of_print_entries [OF newline_notin_header])
  then show ?thesis
    by (simp add: flag_text_format RBT.lookup_in_tree RBT.distinct_entries nat_of_dec_dec_nat
        length_bitset32 bitset32_chars nat_of_bin_bitset32 del: set_map)
qed


text \<open>
  A map with three entries, stored out of order, one of them with all 32 bits set.
\<close>

theorem flag_lines_format_witness:
  "\<not> Load (fake_env 0 (Inr (1000, 2001)) (Inr (Some demo_flags))) ''dict_ccdb.so'' < 0
   \<and> getRunDuration (fake_env 0 (Inr (1000, 2001)) (Inr (Some demo_flags))) 42
       = Inr (1000, 2001)
   \<and> getSpecific (fake_env 0 (Inr (1000, 2001)) (Inr (Some demo_flags))) default_ccdbPath
         (query_timestamp (1000, 2001)) (build_metadata 42 ''apass4'' ''LHC23zzh'' 1)
       = Inr (Some demo_flags)
   \<and> lines_of (cout (read_encoded_flags (fake_env 0 (Inr (1000, 2001)) (Inr (Some demo_flags)))
                        42 ''apass4'' ''LHC23zzh'' 1 default_ccdbPath))
       = [''Encoded Flags for Run 42:'',
          ''  Timestamp: 10, Bitmask: 11111111111111111111111111111111 (4294967295)'',
          ''  Timestamp: 20, Bitmask: 00000000000000000000000000000000 (0)'',
          ''  Timestamp: 30, Bitmask: 00000000000000000000000000000101 (5)'']"
proof -
  let ?env = "fake_env 0 (Inr (1000, 2001)) (Inr (Some demo_flags))"
  have h1: "\<not> Load ?env ''dict_ccdb.so'' < 0"
    by (simp add: fake_env_simps)
  have h2: "getRunDuration ?env 42 = Inr (1000, 2001)"
    by (simp add: fake_env_simps)
  have h3: "getSpecific ?env default_ccdbPath (query_timestamp (1000, 2001))
              (build_metadata 42 ''apass4'' ''LHC23zzh'' 1) = Inr (Some demo_flags)"
    by (simp add: fake_env_simps)
  have e: "(''Encoded Flags for Run '' @ dec_int (sint (42 :: c_int)) @ '':'')
             # map (\<lambda>(t, b). ''  Timestamp: '' @ dec_nat (unat t) @ '', Bitmask: '' @ bitset32 b
                               @ '' ('' @ dec_nat (unat b) @ '')'')
                   [(10 :: uint64_t, 4294967295 :: uint32_t), (20, 0), (30, 5)]
           = [''Encoded Flags for Run 42:'',
              ''  Timestamp: 10, Bitmask: 11111111111111111111111111111111 (4294967295)'',
              ''  Timestamp: 20, Bitmask: 00000000000000000000000000000000 (0)'',
              ''  Timestamp: 30, Bitmask: 00000000000000000000000000000101 (5)'']"
    by (simp add: dec_int_def dec_eval bitset32_def upt_rec)
  from flag_lines_format [OF h1 h2 h3]
  have "lines_of (cout (read_encoded_flags ?env 42 ''apass4'' ''LHC23zzh'' 1 default_ccdbPath))
          = (''Encoded Flags for Run '' @ dec_int (sint (42 :: c_int)) @ '':'')
             # map (\<lambda>(t, b). ''  Timestamp: '' @ dec_nat (unat t) @ '', Bitmask: '' @ bitset32 b
                               @ '' ('' @ dec_nat (unat b) @ '')'')
                   (RBT.entries demo_flags)"
    by (rule conjunct1)
  then have "lines_of (cout (read_encoded_flags ?env 42 ''apass4'' ''LHC23zzh'' 1 default_ccdbPath))
          = [''Encoded Flags for Run 42:'',
              ''  Timestamp: 10, Bitmask: 11111111111111111111111111111111 (4294967295)'',
              ''  Timestamp: 20, Bitmask: 00000000000000000000000000000000 (0)'',
              ''  Timestamp: 30, Bitmask: 00000000000000000000000000000101 (5)'']"
    unfolding entries_demo_flags e .
  with h1 h2 h3 show ?thesis by blast
qed

section \<open>Order of the printed flags\<close>

lemma strict_sorted_unat:
  fixes ws :: "uint64_t list"
  shows "sorted_wrt (<) ws \<Longrightarrow> sorted_wrt (<) (map unat ws)"
  by (simp add: sorted_wrt_map word_less_nat_alt [symmetric])

lemma strict_sorted_keys: "sorted_wrt (<) (map fst (RBT.entries t))"
  by (simp add: strict_sorted_iff RBT.sorted_entries RBT.distinct_entries)

text \<open>
  C7. When the lookup returns an object, the timestamps read off the printed flag lines
  (the lines after the header) are those of the map's entries, and each is smaller than
  every timestamp printed after it.
\<close>

theorem flag_lines_ascending:
  assumes "\<not> Load env ''dict_ccdb.so'' < 0"
    and "getRunDuration env run = Inr soreor"
    and "getSpecific env ccdbPath (query_timestamp soreor)
           (build_metadata run passName periodName versionNumber) = Inr (Some encodedFlags)"
  shows "map line_timestamp
           (tl (lines_of (cout (read_encoded_flags env run passName periodName versionNumber
                                  ccdbPath))))
           = map (\<lambda>e. unat (fst e)) (RBT.entries encodedFlags)
       \<and> sorted_wrt (<) (map line_timestamp
           (tl (lines_of (cout (read_encoded_flags env run passName periodName versionNumber
                                  ccdbPath)))))"
proof -
  have l: "lines_of (cout (read_encoded_flags env run passName periodName versionNumber ccdbPath))
          = (''Encoded Flags for Run '' @ dec_int (sint run) @ '':'')
            # map flag_text (RBT.entries encodedFlags)"
    unfolding run_found(1) [OF assms]
    by (rule lines_of_print_entries [OF newline_notin_header])
  then have t: "tl (lines_of (cout (read_encoded_flags env run passName periodName
                       versionNumber ccdbPath))) = map flag_text (RBT.entries encodedFlags)"
    by simp
  have m: "map line_timestamp (map flag_text (RBT.entries encodedFlags))
             = map (\<lambda>e. unat (fst e)) (RBT.entries encodedFlags)"
    by (simp add: line_timestamp_flag_text)
  have "sorted_wrt (<) (map unat (map fst (RBT.entries encodedFlags)))"
    by (rule strict_sorted_unat [OF strict_sorted_keys])
  then have s: "sorted_wrt (<) (map (\<lambda>e. unat (fst e)) (RBT.entries encodedFlags))"
    by (simp add: comp_def)
  show ?thesis unfolding t m using s by simp
qed

text \<open>The entries stored as 30, 10, 20 are printed as 10, 20, 30.\<close>

theorem flag_lines_ascending_witness:
  "\<not> Load (fake_env 0 (Inr (1000, 2001)) (Inr (Some demo_flags))) ''dict_ccdb.so'' < 0
   \<and> getRunDuration (fake_env 0 (Inr (1000, 2001)) (Inr (Some demo_flags))) 42
       = Inr (1000, 2001)
   \<and> getSpecific (fake_env 0 (Inr (1000, 2001)) (Inr (Some demo_flags))) default_ccdbPath
         (query_timestamp (1000, 2001)) (build_metadata 42 ''apass4'' ''LHC23zzh'' 1)
       = Inr (Some demo_flags)
   \<and> map line_timestamp
         (tl (lines_of (cout (read_encoded_flags
                (fake_env 0 (Inr (1000, 2001)) (Inr (Some demo_flags)))
                42 ''apass4'' ''LHC23zzh'' 1 default_ccdbPath))))
       = [10, 20, 30]
   \<and> sorted_wrt (<) [10, 20, 30 :: nat]"
proof -
  let ?env = "fake_env 0 (Inr (1000, 2001)) (Inr (Some demo_flags))"
  have h1: "\<not> Load ?env ''dict_ccdb.so'' < 0"
    by (simp add: fake_env_simps)
  have h2: "getRunDuration ?env 42 = Inr (1000, 2001)"
    by (simp add: fake_env_simps)
  have h3: "getSpecific ?env default_ccdbPath (query_timestamp (1000, 2001))
              (build_metadata 42 ''apass4'' ''LHC23zzh'' 1) = Inr (Some demo_flags)"
    by (simp add: fake_env_simps)
  have "map line_timestamp
         (tl (lines_of (cout (read_encoded_flags ?env 42 ''apass4'' ''LHC23zzh'' 1
                                default_ccdbPath))))
       = [10, 20, 30]"
    using flag_lines_ascending [OF h1 h2 h3] by (simp add: entries_demo_flags)
  with h1 h2 h3 show ?thesis by simp
qed

section \<open>The metadata filter\<close>

lemma dom_build_metadata:
  "dom (build_metadata run passName periodName versionNumber)
     = {''run'', ''passName'', ''periodName'', ''version''}"
  by (auto simp: build_metadata_def)

lemma build_metadata_values:
  "build_metadata run passName periodName versionNumber ''run'' = Some (to_string run)"
  "build_metadata run passName periodName versionNumber ''passName'' = Some passName"
  "build_metadata run passName periodName versionNumber ''periodName'' = Some periodName"
  "build_metadata run passName periodName versionNumber ''version''
     = Some (to_string versionNumber)"
  by (simp_all add: build_metadata_def)

text \<open>
  C3. Whenever the lookup is made (the dictionary loaded and the run's duration resolved),
  the metadata map given to it has exactly the keys \<^verbatim>\<open>run\<close>, \<^verbatim>\<open>passName\<close>,
  \<^verbatim>\<open>periodName\<close> and \<^verbatim>\<open>version\<close>; the values of \<^verbatim>\<open>run\<close> and \<^verbatim>\<open>version\<close> are the
  decimal texts of the two integers (they read back as these integers) and the other two
  are the strings as given. This map is the one in the trace, and it is the one the store
  answers to: what the macro writes and how it ends is what follows from the store's reply
  to \<^verbatim>\<open>getSpecific\<close> at the given path, the query timestamp and this very map.
\<close>

theorem metadata_filter_keys:
  assumes "\<not> Load env ''dict_ccdb.so'' < 0"
    and "getRunDuration env run = Inr soreor"
  shows "map dom (query_metadata
           (calls (read_encoded_flags env run passName periodName versionNumber ccdbPath)))
           = [{''run'', ''passName'', ''periodName'', ''version''}]
       \<and> map (\<lambda>md. (md ''run'', md ''passName'', md ''periodName'', md ''version''))
           (query_metadata
             (calls (read_encoded_flags env run passName periodName versionNumber ccdbPath)))
           = [(Some (to_string run), Some passName, Some periodName,
               Some (to_string versionNumber))]
       \<and> int_of_dec (to_string run) = sint run
       \<and> int_of_dec (to_string versionNumber) = sint versionNumber
       \<and> (\<exists>md.
            dom md = {''run'', ''passName'', ''periodName'', ''version''}
          \<and> md ''run'' = Some (to_string run)
          \<and> md ''passName'' = Some passName
          \<and> md ''periodName'' = Some periodName
          \<and> md ''version'' = Some (to_string versionNumber)
          \<and> calls (read_encoded_flags env run passName periodName versionNumber ccdbPath)
              = [Instance, GetRunDuration run,
                 GetSpecific ccdbPath (query_timestamp soreor) md]
          \<and> (case getSpecific env ccdbPath (query_timestamp soreor) md of
                Inl (Std_exception msg) \<Rightarrow>
                  cerr (read_encoded_flags env run passName periodName versionNumber ccdbPath)
                    = ''Error: Exception occurred while retrieving CCDB object: ''
                      @ msg @ [newline]
                  \<and> cout (read_encoded_flags env run passName periodName versionNumber
                            ccdbPath) = []
                  \<and> outcome (read_encoded_flags env run passName periodName versionNumber
                               ccdbPath) = Returned
              | Inl Other_exception \<Rightarrow>
                  cerr (read_encoded_flags env run passName periodName versionNumber ccdbPath)
                    = []
                  \<and> cout (read_encoded_flags env run passName periodName versionNumber
                            ccdbPath) = []
                  \<and> outcome (read_encoded_flags env run passName periodName versionNumber
                               ccdbPath) = Propagated Other_exception
              | Inr None \<Rightarrow>
                  cerr (read_encoded_flags env run passName periodName versionNumber ccdbPath)
                    = ''Error: Unable to retrieve encoded flags for run '' @ dec_int (sint run)
                      @ '' from CCDB.'' @ [newline]
                  \<and> cout (read_encoded_flags env run passName periodName versionNumber
                            ccdbPath) = []
                  \<and> outcome (read_encoded_flags env run passName periodName versionNumber
                               ccdbPath) = Returned
              | Inr (Some encodedFlags) \<Rightarrow>
                  cerr (read_encoded_flags env run passName periodName versionNumber ccdbPath)
                    = []
                  \<and> cout (read_encoded_flags env run passName periodName versionNumber
                            ccdbPath)
                    = print_entries (RBT.entries encodedFlags)
                        (''Encoded Flags for Run '' @ dec_int (sint run) @ '':'' @ [newline])
                  \<and> outcome (read_encoded_flags env run passName periodName versionNumber
                               ccdbPath) = Returned))"
proof -
  let ?md = "build_metadata run passName periodName versionNumber"
  let ?r = "read_encoded_flags env run passName periodName versionNumber ccdbPath"
  have trace: "calls ?r = [Instance, GetRunDuration run,
                 GetSpecific ccdbPath (query_timestamp soreor) ?md]"
    by (rule run_calls [OF assms])
  have reply: "(case getSpecific env ccdbPath (query_timestamp soreor) ?md of
                Inl (Std_exception msg) \<Rightarrow>
                  cerr ?r = ''Error: Exception occurred while retrieving CCDB object: ''
                      @ msg @ [newline]
                  \<and> cout ?r = [] \<and> outcome ?r = Returned
              | Inl Other_exception \<Rightarrow>
                  cerr ?r = [] \<and> cout ?r = [] \<and> outcome ?r = Propagated Other_exception
              | Inr None \<Rightarrow>
                  cerr ?r = ''Error: Unable to retrieve encoded flags for run ''
                      @ dec_int (sint run) @ '' from CCDB.'' @ [newline]
                  \<and> cout ?r = [] \<and> outcome ?r = Returned
              | Inr (Some encodedFlags) \<Rightarrow>
                  cerr ?r = []
                  \<and> cout ?r = print_entries (RBT.entries encodedFlags)
                        (''Encoded Flags for Run '' @ dec_int (sint run) @ '':'' @ [newline])
                  \<and> outcome ?r = Returned)"
    using assms
    by (simp add: read_encoded_flags_def Let_def split: sum.split exn.split option.split)
  have passed: "\<exists>md.
            dom md = {''run'', ''passName'', ''periodName'', ''version''}
          \<and> md ''run'' = Some (to_string run)
          \<and> md ''passName'' = Some passName
          \<and> md ''periodName'' = Some periodName
          \<and> md ''version'' = Some (to_string versionNumber)
          \<and> calls ?r = [Instance, GetRunDuration run,
                 GetSpecific ccdbPath (query_timestamp soreor) md]
          \<and> (case getSpecific env ccdbPath (query_timestamp soreor) md of
                Inl (Std_exception msg) \<Rightarrow>
                  cerr ?r = ''Error: Exception occurred while retrieving CCDB object: ''
                      @ msg @ [newline]
                  \<and> cout ?r = [] \<and> outcome ?r = Returned
              | Inl Other_exception \<Rightarrow>
                  cerr ?r = [] \<and> cout ?r = [] \<and> outcome ?r = Propagated Other_exception
              | Inr None \<Rightarrow>
                  cerr ?r = ''Error: Unable to retrieve encoded flags for run ''
                      @ dec_int (sint run) @ '' from CCDB.'' @ [newline]
                  \<and> cout ?r = [] \<and> outcome ?r = Returned
              | Inr (Some encodedFlags) \<Rightarrow>
                  cerr ?r = []
                  \<and> cout ?r = print_entries (RBT.entries encodedFlags)
                        (''Encoded Flags for Run '' @ dec_int (sint run) @ '':'' @ [newline])
                  \<and> outcome ?r = Returned)"
    using dom_build_metadata [of run passName periodName versionNumber]
      build_metadata_values [of run passName periodName versionNumber] trace reply
    by (intro exI [of _ ?md] conjI)
  have "map dom (query_metadata (calls ?r))
           = [{''run'', ''passName'', ''periodName'', ''version''}]
       \<and> map (\<lambda>md. (md ''run'', md ''passName'', md ''periodName'', md ''version''))
           (query_metadata (calls ?r))
           = [(Some (to_string run), Some passName, Some periodName,
               Some (to_string versionNumber))]
       \<and> int_of_dec (to_string run) = sint run
       \<and> int_of_dec (to_string versionNumber) = sint versionNumber"
    by (simp add: trace dom_build_metadata build_metadata_values int_of_dec_to_string)
  with passed show ?thesis by blast
qed


text \<open>
  Run 42, version 7, against the store that looks at the filter: the object is found and
  printed. With version 8 the same store has nothing, and the macro reports it.
\<close>

theorem metadata_filter_keys_witness:
  "\<not> Load selective_env ''dict_ccdb.so'' < 0
   \<and> getRunDuration selective_env 42 = Inr (1000, 2001)
   \<and> map dom (query_metadata
         (calls (read_encoded_flags selective_env 42 ''apass4'' ''LHC23zzh'' 7
                   default_ccdbPath)))
       = [{''run'', ''passName'', ''periodName'', ''version''}]
   \<and> map (\<lambda>md. (md ''run'', md ''passName'', md ''periodName'', md ''version''))
         (query_metadata
           (calls (read_encoded_flags selective_env 42 ''apass4'' ''LHC23zzh'' 7
                     default_ccdbPath)))
       = [(Some ''42'', Some ''apass4'', Some ''LHC23zzh'', Some ''7'')]
   \<and> cerr (read_encoded_flags selective_env 42 ''apass4'' ''LHC23zzh'' 7 default_ccdbPath)
       = []
   \<and> cout (read_encoded_flags selective_env 42 ''apass4'' ''LHC23zzh'' 7 default_ccdbPath)
       = print_entries (RBT.entries demo_flags) (''Encoded Flags for Run 42:'' @ [newline])
   \<and> outcome (read_encoded_flags selective_env 42 ''apass4'' ''LHC23zzh'' 7 default_ccdbPath)
       = Returned
   \<and> cout (read_encoded_flags selective_env 42 ''apass4'' ''LHC23zzh'' 8 default_ccdbPath)
       = []
   \<and> cerr (read_encoded_flags selective_env 42 ''apass4'' ''LHC23zzh'' 8 default_ccdbPath)
       = ''Error: Unable to retrieve encoded flags for run 42 from CCDB.'' @ [newline]"
proof -
  let ?r = "read_encoded_flags selective_env 42 ''apass4'' ''LHC23zzh'' 7 default_ccdbPath"
  let ?r' = "read_encoded_flags selective_env 42 ''apass4'' ''LHC23zzh'' 8 default_ccdbPath"
  have h1: "\<not> Load selective_env ''dict_ccdb.so'' < 0"
    by (simp add: selective_env_def)
  have h2: "getRunDuration selective_env 42 = Inr (1000, 2001)"
    by (simp add: selective_env_def)
  have e: "to_string 42 = ''42''" "to_string 7 = ''7''" "to_string 8 = ''8''"
    "dec_int (sint (42 :: c_int)) = ''42''"
    by (simp_all add: to_string_def dec_int_def dec_eval)
  note t = metadata_filter_keys [OF h1 h2, of "''apass4''" "''LHC23zzh''" 7 default_ccdbPath]
  have k1: "map dom (query_metadata (calls ?r))
           = [{''run'', ''passName'', ''periodName'', ''version''}]"
    by (rule t [THEN conjunct1])
  have k2: "map (\<lambda>md. (md ''run'', md ''passName'', md ''periodName'', md ''version''))
           (query_metadata (calls ?r))
           = [(Some ''42'', Some ''apass4'', Some ''LHC23zzh'', Some ''7'')]"
    using t [THEN conjunct2, THEN conjunct1] unfolding e .
  have found: "cerr ?r = []
      \<and> cout ?r = print_entries (RBT.entries demo_flags)
                    (''Encoded Flags for Run 42:'' @ [newline])
      \<and> outcome ?r = Returned"
    using t [THEN conjunct2, THEN conjunct2, THEN conjunct2, THEN conjunct2]
  proof (elim exE conjE)
    fix md :: metadata_map
    assume md: "md ''run'' = Some (to_string 42)" "md ''passName'' = Some ''apass4''"
      "md ''periodName'' = Some ''LHC23zzh''" "md ''version'' = Some (to_string 7)"
    assume c: "case getSpecific selective_env default_ccdbPath (query_timestamp (1000, 2001)) md of
              Inl (Std_exception msg) \<Rightarrow>
                cerr ?r = ''Error: Exception occurred while retrieving CCDB object: ''
                    @ msg @ [newline]
                \<and> cout ?r = [] \<and> outcome ?r = Returned
            | Inl Other_exception \<Rightarrow>
                cerr ?r = [] \<and> cout ?r = [] \<and> outcome ?r = Propagated Other_exception
            | Inr None \<Rightarrow>
                cerr ?r = ''Error: Unable to retrieve encoded flags for run ''
                    @ dec_int (sint (42 :: c_int)) @ '' from CCDB.'' @ [newline]
                \<and> cout ?r = [] \<and> outcome ?r = Returned
            | Inr (Some encodedFlags) \<Rightarrow>
                cerr ?r = []
                \<and> cout ?r = print_entries (RBT.entries encodedFlags)
                      (''Encoded Flags for Run '' @ dec_int (sint (42 :: c_int)) @ '':''
                       @ [newline])
                \<and> outcome ?r = Returned"
    have "getSpecific selective_env default_ccdbPath (query_timestamp (1000, 2001)) md
            = Inr (Some demo_flags)"
      using md unfolding e by (simp add: selective_env_def)
    with c show ?thesis
      unfolding e by simp
  qed
  note t' = metadata_filter_keys [OF h1 h2, of "''apass4''" "''LHC23zzh''" 8 default_ccdbPath]
  have missing: "cout ?r' = []
      \<and> cerr ?r' = ''Error: Unable to retrieve encoded flags for run 42 from CCDB.''
                    @ [newline]"
    using t' [THEN conjunct2, THEN conjunct2, THEN conjunct2, THEN conjunct2]
  proof (elim exE conjE)
    fix md :: metadata_map
    assume md: "md ''version'' = Some (to_string 8)"
    assume c: "case getSpecific selective_env default_ccdbPath (query_timestamp (1000, 2001)) md of
              Inl (Std_exception msg) \<Rightarrow>
                cerr ?r' = ''Error: Exception occurred while retrieving CCDB object: ''
                    @ msg @ [newline]
                \<and> cout ?r' = [] \<and> outcome ?r' = Returned
            | Inl Other_exception \<Rightarrow>
                cerr ?r' = [] \<and> cout ?r' = [] \<and> outcome ?r' = Propagated Other_exception
            | Inr None \<Rightarrow>
                cerr ?r' = ''Error: Unable to retrieve encoded flags for run ''
                    @ dec_int (sint (42 :: c_int)) @ '' from CCDB.'' @ [newline]
                \<and> cout ?r' = [] \<and> outcome ?r' = Returned
            | Inr (Some encodedFlags) \<Rightarrow>
                cerr ?r' = []
                \<and> cout ?r' = print_entries (RBT.entries encodedFlags)
                      (''Encoded Flags for Run '' @ dec_int (sint (42 :: c_int)) @ '':''
                       @ [newline])
                \<and> outcome ?r' = Returned"
    have "getSpecific selective_env default_ccdbPath (query_timestamp (1000, 2001)) md
            = Inr None"
      using md unfolding e by (simp add: selective_env_def)
    with c show ?thesis
      unfolding e by simp
  qed
  from h1 h2 k1 k2 found missing show ?thesis
    by simp
qed

section \<open>A lookup that finds nothing, or throws\<close>

text \<open>
  C4. When the lookup returns the null pointer, standard error holds exactly one line,
  which names the run in decimal; nothing is written to standard output, and the macro
  returns normally.
\<close>

theorem null_result_reported:
  assumes "\<not> Load env ''dict_ccdb.so'' < 0"
    and "getRunDuration env run = Inr soreor"
    and "getSpecific env ccdbPath (query_timestamp soreor)
           (build_metadata run passName periodName versionNumber) = Inr None"
  shows "lines_of (cerr (read_encoded_flags env run passName periodName versionNumber ccdbPath))
           = [''Error: Unable to retrieve encoded flags for run '' @ dec_int (sint run)
              @ '' from CCDB.'']
       \<and> int_of_dec (dec_int (sint run)) = sint run
       \<and> cout (read_encoded_flags env run passName periodName versionNumber ccdbPath) = []
       \<and> outcome (read_encoded_flags env run passName periodName versionNumber ccdbPath)
           = Returned"
proof -
  have "lines_of (cerr (read_encoded_flags env run passName periodName versionNumber ccdbPath))
          = [''Error: Unable to retrieve encoded flags for run '' @ dec_int (sint run)
              @ '' from CCDB.'']"
    using lines_of_single [OF newline_notin_null_message, of run]
    by (simp add: run_null(2) [OF assms])
  then show ?thesis
    by (simp add: run_null(1,3) [OF assms] int_of_dec_dec_int)
qed

text \<open>Run 42 against a store that has no object.\<close>

theorem null_result_reported_witness:
  "\<not> Load (fake_env 0 (Inr (1000, 2001)) (Inr None)) ''dict_ccdb.so'' < 0
   \<and> getRunDuration (fake_env 0 (Inr (1000, 2001)) (Inr None)) 42 = Inr (1000, 2001)
   \<and> getSpecific (fake_env 0 (Inr (1000, 2001)) (Inr None)) default_ccdbPath
         (query_timestamp (1000, 2001)) (build_metadata 42 ''apass4'' ''LHC23zzh'' 1)
       = Inr None
   \<and> lines_of (cerr (read_encoded_flags (fake_env 0 (Inr (1000, 2001)) (Inr None))
                        42 ''apass4'' ''LHC23zzh'' 1 default_ccdbPath))
       = [''Error: Unable to retrieve encoded flags for run 42 from CCDB.'']
   \<and> cout (read_encoded_flags (fake_env 0 (Inr (1000, 2001)) (Inr None))
              42 ''apass4'' ''LHC23zzh'' 1 default_ccdbPath) = []
   \<and> outcome (read_encoded_flags (fake_env 0 (Inr (1000, 2001)) (Inr None))
              42 ''apass4'' ''LHC23zzh'' 1 default_ccdbPath) = Returned"
proof -
  let ?env = "fake_env 0 (Inr (1000, 2001)) (Inr None)"
  have h1: "\<not> Load ?env ''dict_ccdb.so'' < 0"
    by (simp add: fake_env_simps)
  have h2: "getRunDuration ?env 42 = Inr (1000, 2001)"
    by (simp add: fake_env_simps)
  have h3: "getSpecific ?env default_ccdbPath (query_timestamp (1000, 2001))
              (build_metadata 42 ''apass4'' ''LHC23zzh'' 1) = Inr None"
    by (simp add: fake_env_simps)
  show ?thesis
    using h1 h2 h3 null_result_reported [OF h1 h2 h3]
    by (simp add: dec_int_def dec_eval)
qed


text \<open>
  C5 (as amended). When the lookup throws a \<^verbatim>\<open>std::exception\<close>, the macro catches it:
  standard error holds the fixed prefix, the exception's message and one newline, which is
  exactly one line whenever the message has no newline in it; nothing is written to
  standard output, and the macro returns normally. A thrown object of any other type does
  not match the handler: nothing is written and it leaves the macro.
\<close>

theorem std_exception_swallowed:
  assumes "\<not> Load env ''dict_ccdb.so'' < 0"
    and "getRunDuration env run = Inr soreor"
    and "getSpecific env ccdbPath (query_timestamp soreor)
           (build_metadata run passName periodName versionNumber) = Inl ex"
  shows "(\<forall>msg. ex = Std_exception msg \<longrightarrow>
            cerr (read_encoded_flags env run passName periodName versionNumber ccdbPath)
              = ''Error: Exception occurred while retrieving CCDB object: '' @ msg @ [newline]
          \<and> (newline \<notin> set msg \<longrightarrow>
               lines_of (cerr (read_encoded_flags env run passName periodName versionNumber
                                 ccdbPath))
               = [''Error: Exception occurred while retrieving CCDB object: '' @ msg])
          \<and> cout (read_encoded_flags env run passName periodName versionNumber ccdbPath) = []
          \<and> outcome (read_encoded_flags env run passName periodName versionNumber ccdbPath)
              = Returned)
       \<and> (ex = Other_exception \<longrightarrow>
            cerr (read_encoded_flags env run passName periodName versionNumber ccdbPath) = []
          \<and> cout (read_encoded_flags env run passName periodName versionNumber ccdbPath) = []
          \<and> outcome (read_encoded_flags env run passName periodName versionNumber ccdbPath)
              = Propagated Other_exception)"
proof (cases ex)
  case (Std_exception msg)
  note r = run_std_exception [OF assms(1,2) assms(3) [unfolded Std_exception]]
  have "lines_of (cerr (read_encoded_flags env run passName periodName versionNumber ccdbPath))
          = [''Error: Exception occurred while retrieving CCDB object: '' @ msg]"
    if "newline \<notin> set msg"
  proof -
    from that newline_notin_exception_prefix
    have "newline \<notin> set (''Error: Exception occurred while retrieving CCDB object: '' @ msg)"
      by (simp del: set_append add: set_append [of _ msg])
    from lines_of_single [OF this] show ?thesis
      by (simp add: r(2))
  qed
  with Std_exception r show ?thesis by simp
next
  case Other_exception
  note r = run_other_exception [OF assms(1,2) assms(3) [unfolded Other_exception]]
  with Other_exception show ?thesis by simp
qed


text \<open>
  A store whose lookup throws a \<^verbatim>\<open>std::exception\<close> with the message \<^verbatim>\<open>timeout\<close>, and
  one whose lookup throws an object of another type.
\<close>

theorem std_exception_swallowed_witness:
  "\<not> Load (fake_env 0 (Inr (1000, 2001)) (Inl (Std_exception ''timeout''))) ''dict_ccdb.so'' < 0
   \<and> getRunDuration (fake_env 0 (Inr (1000, 2001)) (Inl (Std_exception ''timeout''))) 42
       = Inr (1000, 2001)
   \<and> getSpecific (fake_env 0 (Inr (1000, 2001)) (Inl (Std_exception ''timeout'')))
         default_ccdbPath (query_timestamp (1000, 2001))
         (build_metadata 42 ''apass4'' ''LHC23zzh'' 1)
       = Inl (Std_exception ''timeout'')
   \<and> newline \<notin> set ''timeout''
   \<and> lines_of (cerr (read_encoded_flags
         (fake_env 0 (Inr (1000, 2001)) (Inl (Std_exception ''timeout'')))
         42 ''apass4'' ''LHC23zzh'' 1 default_ccdbPath))
       = [''Error: Exception occurred while retrieving CCDB object: timeout'']
   \<and> cout (read_encoded_flags
         (fake_env 0 (Inr (1000, 2001)) (Inl (Std_exception ''timeout'')))
         42 ''apass4'' ''LHC23zzh'' 1 default_ccdbPath) = []
   \<and> outcome (read_encoded_flags
         (fake_env 0 (Inr (1000, 2001)) (Inl (Std_exception ''timeout'')))
         42 ''apass4'' ''LHC23zzh'' 1 default_ccdbPath) = Returned
   \<and> getSpecific (fake_env 0 (Inr (1000, 2001)) (Inl Other_exception))
         default_ccdbPath (query_timestamp (1000, 2001))
         (build_metadata 42 ''apass4'' ''LHC23zzh'' 1)
       = Inl Other_exception
   \<and> outcome (read_encoded_flags (fake_env 0 (Inr (1000, 2001)) (Inl Other_exception))
         42 ''apass4'' ''LHC23zzh'' 1 default_ccdbPath) = Propagated Other_exception"
proof -
  let ?env = "fake_env 0 (Inr (1000, 2001)) (Inl (Std_exception ''timeout''))"
  let ?env' = "fake_env 0 (Inr (1000, 2001)) (Inl Other_exception)"
  have g1: "\<not> Load ?env' ''dict_ccdb.so'' < 0"
    by (simp add: fake_env_simps)
  have g2: "getRunDuration ?env' 42 = Inr (1000, 2001)"
    by (simp add: fake_env_simps)
  have g3: "getSpecific ?env' default_ccdbPath (query_timestamp (1000, 2001))
              (build_metadata 42 ''apass4'' ''LHC23zzh'' 1) = Inl Other_exception"
    by (simp add: fake_env_simps)
  from std_exception_swallowed [OF g1 g2 g3]
  have p: "outcome (read_encoded_flags ?env' 42 ''apass4'' ''LHC23zzh'' 1 default_ccdbPath)
      = Propagated Other_exception"
    by blast
  have h1: "\<not> Load ?env ''dict_ccdb.so'' < 0"
    by (simp add: fake_env_simps)
  have h2: "getRunDuration ?env 42 = Inr (1000, 2001)"
    by (simp add: fake_env_simps)
  have h3: "getSpecific ?env default_ccdbPath (query_timestamp (1000, 2001))
              (build_metadata 42 ''apass4'' ''LHC23zzh'' 1) = Inl (Std_exception ''timeout'')"
    by (simp add: fake_env_simps)
  have h4: "newline \<notin> set ''timeout''"
    by (simp add: newline_def)
  note t = std_exception_swallowed [OF h1 h2 h3]
  from t h4 have l: "lines_of (cerr (read_encoded_flags ?env 42 ''apass4'' ''LHC23zzh'' 1
                        default_ccdbPath))
      = [''Error: Exception occurred while retrieving CCDB object: '' @ ''timeout'']"
    by blast
  from t have c: "cout (read_encoded_flags ?env 42 ''apass4'' ''LHC23zzh'' 1 default_ccdbPath)
      = []"
    by blast
  from t have "outcome (read_encoded_flags ?env 42 ''apass4'' ''LHC23zzh'' 1 default_ccdbPath)
      = Returned"
    by blast
  with h1 h2 h3 h4 l c g3 p show ?thesis by simp
qed

text \<open>
  The claim as first stated speaks of any exception and of exactly one line. A thrown object
  that is no \<^verbatim>\<open>std::exception\<close> leaves the macro with no line written; and a
  \<^verbatim>\<open>std::exception\<close> whose message has a newline in it gives two lines.
\<close>

theorem any_exception_swallowed_counterexample:
  "outcome (read_encoded_flags (fake_env 0 (Inr (1000, 2001)) (Inl Other_exception))
              42 ''apass4'' ''LHC23zzh'' 1 default_ccdbPath)
     = Propagated Other_exception
   \<and> outcome (read_encoded_flags (fake_env 0 (Inr (1000, 2001)) (Inl Other_exception))
              42 ''apass4'' ''LHC23zzh'' 1 default_ccdbPath)
     \<noteq> Returned
   \<and> lines_of (cerr (read_encoded_flags (fake_env 0 (Inr (1000, 2001)) (Inl Other_exception))
              42 ''apass4'' ''LHC23zzh'' 1 default_ccdbPath))
     = []
   \<and> lines_of (cerr (read_encoded_flags
         (fake_env 0 (Inr (1000, 2001)) (Inl (Std_exception (''no object'' @ [newline] @ ''retry''))))
         42 ''apass4'' ''LHC23zzh'' 1 default_ccdbPath))
     = [''Error: Exception occurred while retrieving CCDB object: no object'', ''retry'']"
  by (simp add: read_encoded_flags_def fake_env_simps lines_of_def newline_def)

section \<open>A dictionary that does not load\<close>

text \<open>
  C6. When loading \<^verbatim>\<open>dict_ccdb.so\<close> fails (a negative return value), standard error
  holds exactly one line, nothing is written to standard output, no call at all is made on
  the CCDB manager (neither the instance, nor the run duration, nor the lookup), and the
  macro returns normally.
\<close>

theorem load_failure_short_circuits:
  assumes "Load env ''dict_ccdb.so'' < 0"
  shows "lines_of (cerr (read_encoded_flags env run passName periodName versionNumber ccdbPath))
           = [''Error: Failed to load dict_ccdb.so'']
       \<and> cout (read_encoded_flags env run passName periodName versionNumber ccdbPath) = []
       \<and> calls (read_encoded_flags env run passName periodName versionNumber ccdbPath) = []
       \<and> outcome (read_encoded_flags env run passName periodName versionNumber ccdbPath)
           = Returned"
  using lines_of_single [OF newline_notin_load_message]
  by (simp add: run_load_failed [OF assms])

text \<open>\<^verbatim>\<open>Load\<close> returns -1.\<close>

theorem load_failure_short_circuits_witness:
  "Load (fake_env (- 1) (Inr (1000, 2001)) (Inr (Some demo_flags))) ''dict_ccdb.so'' < 0
   \<and> lines_of (cerr (read_encoded_flags
         (fake_env (- 1) (Inr (1000, 2001)) (Inr (Some demo_flags)))
         42 ''apass4'' ''LHC23zzh'' 1 default_ccdbPath))
       = [''Error: Failed to load dict_ccdb.so'']
   \<and> cout (read_encoded_flags
         (fake_env (- 1) (Inr (1000, 2001)) (Inr (Some demo_flags)))
         42 ''apass4'' ''LHC23zzh'' 1 default_ccdbPath) = []
   \<and> calls (read_encoded_flags
         (fake_env (- 1) (Inr (1000, 2001)) (Inr (Some demo_flags)))
         42 ''apass4'' ''LHC23zzh'' 1 default_ccdbPath) = []
   \<and> outcome (read_encoded_flags
         (fake_env (- 1) (Inr (1000, 2001)) (Inr (Some demo_flags)))
         42 ''apass4'' ''LHC23zzh'' 1 default_ccdbPath) = Returned"
proof -
  let ?env = "fake_env (- 1) (Inr (1000, 2001)) (Inr (Some demo_flags))"
  have h1: "Load ?env ''dict_ccdb.so'' < 0"
    by (simp add: fake_env_simps)
  show ?thesis
    using h1 load_failure_short_circuits [OF h1, of 42 "''apass4''" "''LHC23zzh''" 1
        default_ccdbPath]
    by simp
qed

section \<open>A run whose duration does not resolve\<close>

text \<open>
  C8. When \<^verbatim>\<open>getRunDuration\<close> throws, whatever the thrown object, it leaves the macro: the
  macro does not return normally, writes nothing to either stream, and makes no lookup.
\<close>

theorem run_duration_exception_propagates:
  assumes "\<not> Load env ''dict_ccdb.so'' < 0"
    and "getRunDuration env run = Inl ex"
  shows "outcome (read_encoded_flags env run passName periodName versionNumber ccdbPath)
           = Propagated ex
       \<and> outcome (read_encoded_flags env run passName periodName versionNumber ccdbPath)
           \<noteq> Returned
       \<and> cerr (read_encoded_flags env run passName periodName versionNumber ccdbPath) = []
       \<and> cout (read_encoded_flags env run passName periodName versionNumber ccdbPath) = []
       \<and> calls (read_encoded_flags env run passName periodName versionNumber ccdbPath)
           = [Instance, GetRunDuration run]"
  by (simp add: run_duration_raised [OF assms])

text \<open>A store that does not know the run.\<close>

theorem run_duration_exception_propagates_witness:
  "\<not> Load (fake_env 0 (Inl (Std_exception ''unknown run'')) (Inr (Some demo_flags)))
       ''dict_ccdb.so'' < 0
   \<and> getRunDuration (fake_env 0 (Inl (Std_exception ''unknown run'')) (Inr (Some demo_flags)))
       42 = Inl (Std_exception ''unknown run'')
   \<and> outcome (read_encoded_flags
         (fake_env 0 (Inl (Std_exception ''unknown run'')) (Inr (Some demo_flags)))
         42 ''apass4'' ''LHC23zzh'' 1 default_ccdbPath)
       = Propagated (Std_exception ''unknown run'')
   \<and> cerr (read_encoded_flags
         (fake_env 0 (Inl (Std_exception ''unknown run'')) (Inr (Some demo_flags)))
         42 ''apass4'' ''LHC23zzh'' 1 default_ccdbPath) = []
   \<and> cout (read_encoded_flags
         (fake_env 0 (Inl (Std_exception ''unknown run'')) (Inr (Some demo_flags)))
         42 ''apass4'' ''LHC23zzh'' 1 default_ccdbPath) = []"
proof -
  let ?env = "fake_env 0 (Inl (Std_exception ''unknown run'')) (Inr (Some demo_flags))"
  have h1: "\<not> Load ?env ''dict_ccdb.so'' < 0"
    by (simp add: fake_env_simps)
  have h2: "getRunDuration ?env 42 = Inl (Std_exception ''unknown run'')"
    by (simp add: fake_env_simps)
  show ?thesis
    using h1 h2 run_duration_exception_propagates [OF h1 h2, of "''apass4''" "''LHC23zzh''" 1
        default_ccdbPath]
    by simp
qed

section \<open>An empty map\<close>



section \<open>Inputs are not checked\<close>



end
